theory Spec2Isabelle
  imports Main
begin

section \<open>Python values, requests and responses\<close>

text \<open>
  The middlewares read and write \<open>request.meta\<close>, a dictionary from string keys to
  arbitrary Python values. The values that the meta protocol of these middlewares uses
  are \<open>None\<close>, booleans, integers, strings and lists of such values; they are the
  universe of \<open>pyval\<close>.
\<close>

datatype pyval = PNone | PBool bool | PInt int | PStr string | PList "pyval list"

text \<open>
  \<open>request.cookies\<close> is either a dictionary from names to values or a list of
  dictionaries with the keys \<open>name\<close>, \<open>value\<close>, \<open>path\<close> and \<open>domain\<close>.
\<close>

datatype request_cookies =
    CookiesDict "(string \<times> string) list"
  | CookiesList "(string \<rightharpoonup> string) list"

text \<open>
  Headers are a multi-map with case-insensitive keys: a map from the normalised key to
  the list of values of that header.
\<close>

record request =
  url :: string
  req_method :: string
  headers :: "string \<rightharpoonup> string list"
  body :: string
  cookies :: request_cookies
  priority :: int
  dont_filter :: bool
  meta :: "string \<rightharpoonup> pyval"

record response =
  status :: int
  resp_url :: string
  resp_headers :: "string \<rightharpoonup> string list"
  resp_body :: string
  resp_meta :: "string \<rightharpoonup> pyval"

text \<open>
  Exceptions. \<open>HttpError\<close> (a subclass of \<open>IgnoreRequest\<close>) carries the response
  and its message; \<open>PyExc c bs\<close> is an instance of any other class, given by the
  qualified name \<open>c\<close> of its class and the qualified names \<open>bs\<close> of the ancestors of
  that class.
\<close>

datatype exn =
    TypeError
  | KeyError
  | IgnoreRequest string
  | HttpError response string
  | PyExc string "string list"

datatype loglevel = DEBUG | INFO

text \<open>
  The state shared by all middlewares of one crawl: the counters of
  \<open>spider.crawler.stats\<close> and the records emitted through the module loggers
  (level and message template).
\<close>

record env =
  stats :: "string \<rightharpoonup> int"
  log :: "(loglevel \<times> string) list"

definition logger_debug :: "string \<Rightarrow> env \<Rightarrow> env" where
  "logger_debug msg e = e\<lparr>log := log e @ [(DEBUG, msg)]\<rparr>"

definition logger_info :: "string \<Rightarrow> env \<Rightarrow> env" where
  "logger_info msg e = e\<lparr>log := log e @ [(INFO, msg)]\<rparr>"

subsection \<open>The Python operators the middlewares apply to meta values\<close>

text \<open>Truth value of \<open>if v\<close>.\<close>

fun truthy :: "pyval \<Rightarrow> bool" where
  "truthy PNone = False"
| "truthy (PBool b) = b"
| "truthy (PInt i) = (i \<noteq> 0)"
| "truthy (PStr s) = (s \<noteq> [])"
| "truthy (PList xs) = (xs \<noteq> [])"

text \<open>The integer a value counts as in arithmetic (\<open>bool\<close> is a subclass of \<open>int\<close>).\<close>

fun num_of :: "pyval \<Rightarrow> int option" where
  "num_of (PInt i) = Some i"
| "num_of (PBool b) = Some (if b then 1 else 0)"
| "num_of _ = None"

text \<open>\<open>v + n\<close> and \<open>v - n\<close> for an integer \<open>n\<close>: \<open>TypeError\<close> unless \<open>v\<close> is a number.\<close>

definition py_add_int :: "pyval \<Rightarrow> int \<Rightarrow> exn + int" where
  "py_add_int v n = (case num_of v of None \<Rightarrow> Inl TypeError | Some i \<Rightarrow> Inr (i + n))"

definition py_sub_int :: "pyval \<Rightarrow> int \<Rightarrow> exn + int" where
  "py_sub_int v n = (case num_of v of None \<Rightarrow> Inl TypeError | Some i \<Rightarrow> Inr (i - n))"

text \<open>\<open>v + [x]\<close>: list concatenation, \<open>TypeError\<close> unless \<open>v\<close> is a list.\<close>

definition py_append :: "pyval \<Rightarrow> pyval \<Rightarrow> exn + pyval" where
  "py_append v x = (case v of PList xs \<Rightarrow> Inr (PList (xs @ [x])) | _ \<Rightarrow> Inl TypeError)"

text \<open>\<open>d.get(k, default)\<close>.\<close>

definition dict_get :: "('k \<rightharpoonup> 'v) \<Rightarrow> 'k \<Rightarrow> 'v \<Rightarrow> 'v" where
  "dict_get d k dflt = (case d k of None \<Rightarrow> dflt | Some v \<Rightarrow> v)"

text \<open>\<open>d.setdefault(k, default)\<close>: the value read, and the dictionary after the call.\<close>

definition dict_setdefault :: "('k \<rightharpoonup> 'v) \<Rightarrow> 'k \<Rightarrow> 'v \<Rightarrow> 'v \<times> ('k \<rightharpoonup> 'v)" where
  "dict_setdefault d k dflt = (case d k of None \<Rightarrow> (dflt, d(k \<mapsto> dflt)) | Some v \<Rightarrow> (v, d))"

section \<open>Redirect middleware (downloadermiddlewares/redirect.py)\<close>

record redirect_mw =
  max_redirect_times :: int
  priority_adjust :: int

text \<open>
  \<open>BaseRedirectMiddleware._redirect(redirected, request, spider, reason)\<close>.
  \<open>redirected\<close> is the candidate, an object of its own (every caller builds it with
  \<open>request.replace\<close>); \<open>request\<close> is the original. The result is the environment
  after the call, the original request after the call (its meta is written by
  \<open>setdefault\<close>), and the candidate returned or the exception raised.
\<close>

definition redirect ::
  "redirect_mw \<Rightarrow> request \<Rightarrow> request \<Rightarrow> pyval \<Rightarrow> env \<Rightarrow> env \<times> request \<times> (exn + request)" where
  "redirect mw redirected request reason e =
    (let (ttl, m) = dict_setdefault (meta request) ''redirect_ttl'' (PInt (max_redirect_times mw));
         request' = request\<lparr>meta := m\<rparr>
     in case py_add_int (dict_get m ''redirect_times'' (PInt 0)) 1 of
          Inl err \<Rightarrow> (e, request', Inl err)
        | Inr redirects \<Rightarrow>
            if truthy ttl \<and> redirects \<le> max_redirect_times mw then
              (case py_sub_int ttl 1 of
                 Inl err \<Rightarrow> (e, request', Inl err)
               | Inr ttl' \<Rightarrow>
                  (case py_append (dict_get m ''redirect_urls'' (PList [])) (PStr (url request)) of
                     Inl err \<Rightarrow> (e, request', Inl err)
                   | Inr urls \<Rightarrow>
                      (case py_append (dict_get m ''redirect_reasons'' (PList [])) reason of
                         Inl err \<Rightarrow> (e, request', Inl err)
                       | Inr reasons \<Rightarrow>
                          (logger_debug ''Redirecting (%(reason)s) to %(redirected)s from %(request)s'' e,
                           request',
                           Inr (redirected
                                 \<lparr>priority := priority request + priority_adjust mw,
                                  dont_filter := dont_filter request,
                                  meta := (meta redirected)
                                     (''redirect_times'' \<mapsto> PInt redirects,
                                      ''redirect_ttl'' \<mapsto> PInt ttl',
                                      ''redirect_urls'' \<mapsto> urls,
                                      ''redirect_reasons'' \<mapsto> reasons)\<rparr>)))))
            else
              (logger_debug ''Discarding %(request)s: max redirections reached'' e,
               request',
               Inl (IgnoreRequest ''max redirections reached'')))"

section \<open>Retry middleware (downloadermiddlewares/retry.py)\<close>

record retry_mw =
  max_retry_times :: int
  retry_http_codes :: "int set"
  retry_priority_adjust :: int

text \<open>The class of an exception and its ancestors, by qualified name.\<close>

fun exn_mro :: "exn \<Rightarrow> string list" where
  "exn_mro TypeError = [''TypeError'']"
| "exn_mro KeyError = [''KeyError'']"
| "exn_mro (IgnoreRequest msg) = [''scrapy.exceptions.IgnoreRequest'']"
| "exn_mro (HttpError r msg) =
     [''scrapy.spidermiddlewares.httperror.HttpError'', ''scrapy.exceptions.IgnoreRequest'']"
| "exn_mro (PyExc c bs) = c # bs"

text \<open>\<open>isinstance(e, classes)\<close>.\<close>

definition isinstance :: "exn \<Rightarrow> string list \<Rightarrow> bool" where
  "isinstance e classes = (\<exists>c \<in> set (exn_mro e). c \<in> set classes)"

text \<open>\<open>global_object_name(e.__class__)\<close>: the qualified name of the class of \<open>e\<close>.\<close>

definition global_object_name :: "exn \<Rightarrow> string" where
  "global_object_name e = hd (exn_mro e)"


text \<open>
  Modelled from the spec: the stats sink \<open>spider.crawler.stats\<close>, whose class is not
  part of the sources. \<open>inc_value(key)\<close> increments the counter \<open>key\<close> by one; a
  counter that was never incremented counts as 0.
\<close>

definition stat :: "env \<Rightarrow> string \<Rightarrow> int" where
  "stat e key = dict_get (stats e) key 0"

definition inc_value :: "string \<Rightarrow> env \<Rightarrow> env" where
  "inc_value key e = e\<lparr>stats := (stats e)(key \<mapsto> stat e key + 1)\<rparr>"

text \<open>
  Modelled from the spec: \<open>Request.copy()\<close> and \<open>Request.replace(...)\<close>, defined in
  the class \<open>Request\<close>, which is not part of the sources. Each produces a new Request
  instance that carries every attribute forward, \<open>replace\<close> with the given attributes
  replaced; the new instance has a meta dictionary and headers of its own, so writing to
  them leaves the original alone.
\<close>

definition request_copy :: "request \<Rightarrow> request" where
  "request_copy r = r"

definition request_replace :: "request \<Rightarrow> string \<Rightarrow> string option \<Rightarrow> string option \<Rightarrow> request" where
  "request_replace r new_url new_method new_body =
     r\<lparr>url := new_url, req_method := (case new_method of None \<Rightarrow> req_method r | Some m \<Rightarrow> m),
       body := (case new_body of None \<Rightarrow> body r | Some b \<Rightarrow> b)\<rparr>"

text \<open>
  The reason of a retry: the status message (a string) when a response is retried, the
  exception when an exception is.
\<close>

datatype retry_reason = ReasonStr string | ReasonExc exn

text \<open>
  \<open>n <= v\<close> for an integer \<open>n\<close>, as Python 3 compares: \<open>TypeError\<close> unless \<open>v\<close>
  is a number.
\<close>

definition py_int_le :: "int \<Rightarrow> pyval \<Rightarrow> exn + bool" where
  "py_int_le n v = (case num_of v of None \<Rightarrow> Inl TypeError | Some i \<Rightarrow> Inr (n \<le> i))"

text \<open>
  \<open>RetryMiddleware._retry(request, reason, spider)\<close>: the environment after the call and
  the retried request, \<open>None\<close> (nothing returned) or the exception raised. The original
  request is only read.
\<close>

definition retry :: "retry_mw \<Rightarrow> request \<Rightarrow> retry_reason \<Rightarrow> env \<Rightarrow> env \<times> (exn + request option)" where
  "retry mw request reason e =
    (case py_add_int (dict_get (meta request) ''retry_times'' (PInt 0)) 1 of
       Inl err \<Rightarrow> (e, Inl err)
     | Inr retries \<Rightarrow>
        (let retry_times = (case meta request ''max_retry_times'' of
                              None \<Rightarrow> PInt (max_retry_times mw) | Some v \<Rightarrow> v)
         in case py_int_le retries retry_times of
              Inl err \<Rightarrow> (e, Inl err)
            | Inr True \<Rightarrow>
               (let e1 = logger_debug ''Retrying %(request)s (failed %(retries)d times): %(reason)s'' e;
                    retryreq = request_copy request;
                    retryreq = retryreq\<lparr>meta := (meta retryreq)(''retry_times'' \<mapsto> PInt retries)\<rparr>;
                    retryreq = retryreq\<lparr>dont_filter := True\<rparr>;
                    retryreq = retryreq\<lparr>priority := priority request + retry_priority_adjust mw\<rparr>;
                    reason_name = (case reason of ReasonStr s \<Rightarrow> s
                                    | ReasonExc x \<Rightarrow> global_object_name x);
                    e2 = inc_value ''retry/count'' e1;
                    e3 = inc_value (''retry/reason_count/'' @ reason_name) e2
                in (e3, Inr (Some retryreq)))
            | Inr False \<Rightarrow>
               (let e1 = inc_value ''retry/max_reached'' e;
                    e2 = logger_debug ''Gave up retrying %(request)s (failed %(retries)d times): %(reason)s'' e1
                in (e2, Inr None))))"

text \<open>What a downloader middleware hands back from \<open>process_response\<close>.\<close>

datatype dl_result = Resp response | Req request



section \<open>HttpError spider middleware (spidermiddlewares/httperror.py)\<close>

record httperror_mw =
  handle_httpstatus_all :: bool
  handle_httpstatus_list :: "pyval list"

text \<open>
  Of the spider, the middlewares read the attribute \<open>handle_httpstatus_list\<close>, which
  the base class does not define: \<open>None\<close> here when the spider has no such attribute.
\<close>

record spider =
  spider_handle_httpstatus_list :: "pyval option"

text \<open>\<open>getattr(spider, 'handle_httpstatus_list', default)\<close>.\<close>

definition getattr_handle_httpstatus_list :: "spider \<Rightarrow> pyval \<Rightarrow> pyval" where
  "getattr_handle_httpstatus_list sp dflt =
     (case spider_handle_httpstatus_list sp of None \<Rightarrow> dflt | Some v \<Rightarrow> v)"

text \<open>Python's \<open>==\<close> between two values (\<open>True == 1\<close> and \<open>False == 0\<close> hold).\<close>

fun py_eq :: "pyval \<Rightarrow> pyval \<Rightarrow> bool" and py_eq_list :: "pyval list \<Rightarrow> pyval list \<Rightarrow> bool" where
  "py_eq PNone PNone = True"
| "py_eq (PStr s) (PStr t) = (s = t)"
| "py_eq (PList xs) (PList ys) = py_eq_list xs ys"
| "py_eq a b = (case (num_of a, num_of b) of (Some i, Some j) \<Rightarrow> i = j | _ \<Rightarrow> False)"
| "py_eq_list [] [] = True"
| "py_eq_list (x # xs) (y # ys) = (py_eq x y \<and> py_eq_list xs ys)"
| "py_eq_list _ _ = False"

text \<open>
  \<open>n in v\<close> for an integer \<open>n\<close>: membership by \<open>==\<close> in a list; \<open>TypeError\<close> for a
  string (its \<open>in\<close> takes a string on the left) and for a value that is not iterable.
\<close>

definition py_int_in :: "int \<Rightarrow> pyval \<Rightarrow> exn + bool" where
  "py_int_in n v =
     (case v of PList xs \<Rightarrow> Inr (list_ex (\<lambda>x. py_eq (PInt n) x) xs) | _ \<Rightarrow> Inl TypeError)"

text \<open>\<open>HttpErrorMiddleware.process_spider_input(response, spider)\<close>.\<close>

definition process_spider_input :: "httperror_mw \<Rightarrow> response \<Rightarrow> spider \<Rightarrow> exn + unit" where
  "process_spider_input mw response sp =
    (if 200 \<le> status response \<and> status response < 300 then Inr ()
     else let meta = resp_meta response in
       if meta ''handle_httpstatus_all'' \<noteq> None then Inr ()
       else
         (let allowed_statuses =
                (case meta ''handle_httpstatus_list'' of
                   Some v \<Rightarrow> Some v
                 | None \<Rightarrow>
                     if handle_httpstatus_all mw then None
                     else Some (getattr_handle_httpstatus_list sp (PList (handle_httpstatus_list mw))))
          in case allowed_statuses of
               None \<Rightarrow> Inr ()
             | Some allowed \<Rightarrow>
                 (case py_int_in (status response) allowed of
                    Inl err \<Rightarrow> Inl err
                  | Inr True \<Rightarrow> Inr ()
                  | Inr False \<Rightarrow> Inl (HttpError response ''Ignoring non-200 response''))))"

text \<open>\<open>'%s' % n\<close> for an integer \<open>n\<close>: its decimal numeral.\<close>

fun str_nat :: "nat \<Rightarrow> string" where
  "str_nat n = (if n < 10 then [''0123456789'' ! n] else str_nat (n div 10) @ [''0123456789'' ! (n mod 10)])"

declare str_nat.simps [simp del]

definition str_int :: "int \<Rightarrow> string" where
  "str_int i = (if i < 0 then ''-'' @ str_nat (nat (- i)) else str_nat (nat i))"

text \<open>
  \<open>HttpErrorMiddleware.process_spider_exception(response, exception, spider)\<close>: the
  environment after the call and the value returned, \<open>Some []\<close> for the empty list and
  \<open>None\<close> when nothing is returned.
\<close>

definition process_spider_exception ::
  "httperror_mw \<Rightarrow> response \<Rightarrow> exn \<Rightarrow> spider \<Rightarrow> env \<Rightarrow> env \<times> pyval list option" where
  "process_spider_exception mw response exception sp e =
    (if isinstance exception [''scrapy.spidermiddlewares.httperror.HttpError''] then
       (let e1 = inc_value ''httperror/response_ignored_count'' e;
            e2 = inc_value (''httperror/response_ignored_status_count/'' @ str_int (status response)) e1;
            e3 = logger_info ''Ignoring response %(response)r: HTTP status code is not handled or not allowed'' e2
        in (e3, Some []))
     else (e, None))"

section \<open>HTTP redirects (\<open>RedirectMiddleware\<close>, downloadermiddlewares/redirect.py)\<close>

text \<open>
  Modelled from the spec: the class \<open>Headers\<close>, which is not part of the sources, a
  multi-map with case-insensitive keys. A key is normalised to one spelling (lower case
  here) before every access; \<open>h[key]\<close> is the last value of the header, \<open>None\<close> when
  the header has no value, and raises \<open>KeyError\<close> when the header is absent.
\<close>

definition lower_char :: "char \<Rightarrow> char" where
  "lower_char c =
     (let n = (of_char c :: nat) in if 65 \<le> n \<and> n \<le> 90 then char_of (n + 32) else c)"

definition normkey :: "string \<Rightarrow> string" where
  "normkey key = map lower_char key"

definition headers_contains :: "(string \<rightharpoonup> string list) \<Rightarrow> string \<Rightarrow> bool" where
  "headers_contains h key = (h (normkey key) \<noteq> None)"

definition headers_getitem :: "(string \<rightharpoonup> string list) \<Rightarrow> string \<Rightarrow> exn + string option" where
  "headers_getitem h key =
     (case h (normkey key) of
        None \<Rightarrow> Inl KeyError
      | Some vs \<Rightarrow> Inr (if vs = [] then None else Some (last vs)))"

definition headers_getlist :: "(string \<rightharpoonup> string list) \<Rightarrow> string \<Rightarrow> string list" where
  "headers_getlist h key = (case h (normkey key) of None \<Rightarrow> [] | Some vs \<Rightarrow> vs)"

definition headers_pop :: "(string \<rightharpoonup> string list) \<Rightarrow> string \<Rightarrow> (string \<rightharpoonup> string list)" where
  "headers_pop h key = h(normkey key := None)"

text \<open>\<open>BaseRedirectMiddleware._redirect_request_using_get(request, redirect_url)\<close>.\<close>

definition redirect_request_using_get :: "request \<Rightarrow> string \<Rightarrow> request" where
  "redirect_request_using_get request redirect_url =
    (let redirected = request_replace request redirect_url (Some ''GET'') (Some []);
         redirected = redirected\<lparr>headers := headers_pop (headers redirected) ''Content-Type''\<rparr>;
         redirected = redirected\<lparr>headers := headers_pop (headers redirected) ''Content-Length''\<rparr>
     in redirected)"

text \<open>
  The library functions \<open>urljoin\<close> (urllib) and \<open>safe_url_string\<close> (w3lib) are
  parameters of the model. \<open>safe_url_string\<close> takes a string and raises \<open>TypeError\<close>
  on \<open>None\<close>.
\<close>

record url_lib =
  urljoin :: "string \<Rightarrow> string \<Rightarrow> string"
  safe_url_string :: "string \<Rightarrow> string"

text \<open>
  \<open>RedirectMiddleware.process_response(request, response, spider)\<close>: the environment
  and the original request after the call, and the response or request returned or the
  exception raised.
\<close>

definition RedirectMiddleware_process_response ::
  "url_lib \<Rightarrow> redirect_mw \<Rightarrow> request \<Rightarrow> response \<Rightarrow> spider \<Rightarrow> env
     \<Rightarrow> env \<times> request \<times> (exn + dl_result)" where
  "RedirectMiddleware_process_response lib mw request response sp e =
    (let passed = (e, request, Inr (Resp response));
         raised = (\<lambda>err. (e, request, Inl err))
     in
     if truthy (dict_get (meta request) ''dont_redirect'' (PBool False)) then passed
     else case py_int_in (status response) (getattr_handle_httpstatus_list sp (PList [])) of
       Inl err \<Rightarrow> raised err
     | Inr True \<Rightarrow> passed
     | Inr False \<Rightarrow>
      (case py_int_in (status response) (dict_get (meta request) ''handle_httpstatus_list'' (PList [])) of
         Inl err \<Rightarrow> raised err
       | Inr True \<Rightarrow> passed
       | Inr False \<Rightarrow>
          if truthy (dict_get (meta request) ''handle_httpstatus_all'' (PBool False)) then passed
          else if \<not> headers_contains (resp_headers response) ''Location''
                  \<or> status response \<notin> {301, 302, 303, 307, 308} then passed
          else
           (case headers_getitem (resp_headers response) ''location'' of
              Inl err \<Rightarrow> raised err
            | Inr None \<Rightarrow> raised TypeError
            | Inr (Some loc) \<Rightarrow>
               (let location = safe_url_string lib loc;
                    redirected_url = urljoin lib (url request) location;
                    redirected =
                      (if status response \<in> {301, 307, 308} \<or> req_method request = ''HEAD''
                       then request_replace request redirected_url None None
                       else redirect_request_using_get request redirected_url)
                in case redirect mw redirected request (PInt (status response)) e of
                     (e', request', Inl err) \<Rightarrow> (e', request', Inl err)
                   | (e', request', Inr r) \<Rightarrow> (e', request', Inr (Req r))))))"

section \<open>Cookies middleware (downloadermiddlewares/cookies.py)\<close>

text \<open>
  The class \<open>CookieJar\<close> (scrapy.http.cookies, over the standard library's cookie jar)
  is not part of the sources: its constructor and the four methods the middleware calls
  are parameters of the model. A jar is an object of its own, so each method works on
  the one jar it is called on: \<open>set_cookie_if_ok\<close>, \<open>add_cookie_header\<close> and
  \<open>extract_cookies\<close> give the jar after the call, \<open>add_cookie_header\<close> also the
  request with its \<open>Cookie\<close> header set.
\<close>

record ('jar, 'cookie) jar_ops =
  CookieJar :: "'jar"
  make_cookies :: "'jar \<Rightarrow> response \<Rightarrow> request \<Rightarrow> 'cookie list"
  set_cookie_if_ok :: "'jar \<Rightarrow> 'cookie \<Rightarrow> request \<Rightarrow> 'jar"
  add_cookie_header :: "'jar \<Rightarrow> request \<Rightarrow> 'jar \<times> request"
  extract_cookies :: "'jar \<Rightarrow> response \<Rightarrow> request \<Rightarrow> 'jar"

text \<open>
  \<open>self.jars\<close> is a \<open>defaultdict(CookieJar)\<close>. The key under which a dictionary
  stores a value: \<open>True\<close> and \<open>1\<close> (and \<open>False\<close> and \<open>0\<close>) are equal and hash
  alike, so they are one key; a list is unhashable and raises \<open>TypeError\<close>.
\<close>

record 'jar cookies_mw =
  jars :: "pyval \<rightharpoonup> 'jar"
  debug :: bool

fun dict_key :: "pyval \<Rightarrow> exn + pyval" where
  "dict_key (PList xs) = Inl TypeError"
| "dict_key (PBool b) = Inr (PInt (if b then 1 else 0))"
| "dict_key v = Inr v"

text \<open>\<open>self.jars[key]\<close>: a missing key is first bound to a new jar.\<close>

definition jars_getitem ::
  "('jar, 'cookie) jar_ops \<Rightarrow> (pyval \<rightharpoonup> 'jar) \<Rightarrow> pyval \<Rightarrow> 'jar \<times> (pyval \<rightharpoonup> 'jar)" where
  "jars_getitem ops js key =
     (case js key of None \<Rightarrow> (CookieJar ops, js(key \<mapsto> CookieJar ops)) | Some jar \<Rightarrow> (jar, js))"

text \<open>\<open>CookiesMiddleware._format_cookie(cookie)\<close>.\<close>

definition format_cookie :: "(string \<rightharpoonup> string) \<Rightarrow> exn + string" where
  "format_cookie cookie =
    (case cookie ''name'' of
       None \<Rightarrow> Inl KeyError
     | Some name \<Rightarrow>
        (case cookie ''value'' of
           None \<Rightarrow> Inl KeyError
         | Some val \<Rightarrow>
            (let cookie_str = name @ ''='' @ val;
                 cookie_str = (case cookie ''path'' of
                                 None \<Rightarrow> cookie_str
                               | Some p \<Rightarrow> if p \<noteq> [] then cookie_str @ ''; Path='' @ p else cookie_str);
                 cookie_str = (case cookie ''domain'' of
                                 None \<Rightarrow> cookie_str
                               | Some d \<Rightarrow> if d \<noteq> [] then cookie_str @ ''; Domain='' @ d else cookie_str)
             in Inr cookie_str)))"

text \<open>The list comprehension over \<open>_format_cookie\<close>: the first exception ends it.\<close>

fun format_cookies :: "(string \<rightharpoonup> string) list \<Rightarrow> exn + string list" where
  "format_cookies [] = Inr []"
| "format_cookies (c # cs) =
     (case format_cookie c of
        Inl err \<Rightarrow> Inl err
      | Inr s \<Rightarrow> (case format_cookies cs of Inl err \<Rightarrow> Inl err | Inr ss \<Rightarrow> Inr (s # ss)))"

text \<open>
  \<open>CookiesMiddleware._get_request_cookies(jar, request)\<close>. The response it builds has
  the url of the request, the one header \<open>Set-Cookie\<close> and the defaults of
  \<open>Response\<close> elsewhere.
\<close>

definition get_request_cookies ::
  "('jar, 'cookie) jar_ops \<Rightarrow> 'jar \<Rightarrow> request \<Rightarrow> exn + 'cookie list" where
  "get_request_cookies ops jar request =
    (let cookie_list =
           (case cookies request of
              CookiesDict kvs \<Rightarrow> map (\<lambda>(k, v). [''name'' \<mapsto> k, ''value'' \<mapsto> v]) kvs
            | CookiesList cs \<Rightarrow> cs)
     in case format_cookies cookie_list of
          Inl err \<Rightarrow> Inl err
        | Inr cookie_strs \<Rightarrow>
           (let response = \<lparr>status = 200, resp_url = url request,
                             resp_headers = [normkey ''Set-Cookie'' \<mapsto> cookie_strs],
                             resp_body = [], resp_meta = Map.empty\<rparr>
            in Inr (make_cookies ops jar response request)))"

text \<open>\<open>CookiesMiddleware._debug_cookie\<close> and \<open>_debug_set_cookie\<close>.\<close>

definition debug_cookie :: "'jar cookies_mw \<Rightarrow> request \<Rightarrow> env \<Rightarrow> env" where
  "debug_cookie mw request e =
    (if debug mw \<and> headers_getlist (headers request) ''Cookie'' \<noteq> []
     then logger_debug ''Sending cookies to: {}\<newline>{}'' e else e)"

definition debug_set_cookie :: "'jar cookies_mw \<Rightarrow> response \<Rightarrow> env \<Rightarrow> env" where
  "debug_set_cookie mw response e =
    (if debug mw \<and> headers_getlist (resp_headers response) ''Set-Cookie'' \<noteq> []
     then logger_debug ''Received cookies from: {}\<newline>{}'' e else e)"

text \<open>
  \<open>CookiesMiddleware.process_request(request, spider)\<close>: the environment, the
  middleware and the request after the call (the request's headers are written in
  place), and \<open>None\<close> returned or the exception raised.
\<close>

definition CookiesMiddleware_process_request ::
  "('jar, 'cookie) jar_ops \<Rightarrow> 'jar cookies_mw \<Rightarrow> request \<Rightarrow> env
     \<Rightarrow> env \<times> 'jar cookies_mw \<times> request \<times> (exn + unit)" where
  "CookiesMiddleware_process_request ops mw request e =
    (if truthy (dict_get (meta request) ''dont_merge_cookies'' (PBool False))
     then (e, mw, request, Inr ())
     else case dict_key (dict_get (meta request) ''cookiejar'' PNone) of
       Inl err \<Rightarrow> (e, mw, request, Inl err)
     | Inr cookiejarkey \<Rightarrow>
        (let (jar, js) = jars_getitem ops (jars mw) cookiejarkey
         in case get_request_cookies ops jar request of
              Inl err \<Rightarrow> (e, mw\<lparr>jars := js\<rparr>, request, Inl err)
            | Inr cs \<Rightarrow>
               (let jar1 = foldl (\<lambda>j cookie. set_cookie_if_ok ops j cookie request) jar cs;
                    request1 = request\<lparr>headers := headers_pop (headers request) ''Cookie''\<rparr>;
                    (jar2, request2) = add_cookie_header ops jar1 request1;
                    mw' = mw\<lparr>jars := js(cookiejarkey \<mapsto> jar2)\<rparr>
                in (debug_cookie mw' request2 e, mw', request2, Inr ()))))"

text \<open>\<open>CookiesMiddleware.process_response(request, response, spider)\<close>.\<close>

definition CookiesMiddleware_process_response ::
  "('jar, 'cookie) jar_ops \<Rightarrow> 'jar cookies_mw \<Rightarrow> request \<Rightarrow> response \<Rightarrow> env
     \<Rightarrow> env \<times> 'jar cookies_mw \<times> (exn + response)" where
  "CookiesMiddleware_process_response ops mw request response e =
    (if truthy (dict_get (meta request) ''dont_merge_cookies'' (PBool False))
     then (e, mw, Inr response)
     else case dict_key (dict_get (meta request) ''cookiejar'' PNone) of
       Inl err \<Rightarrow> (e, mw, Inl err)
     | Inr cookiejarkey \<Rightarrow>
        (let (jar, js) = jars_getitem ops (jars mw) cookiejarkey;
             jar1 = extract_cookies ops jar response request;
             mw' = mw\<lparr>jars := js(cookiejarkey \<mapsto> jar1)\<rparr>
         in (debug_set_cookie mw' response e, mw', Inr response)))"

section \<open>The types of the meta protocol\<close>

text \<open>
  The meta keys of the redirect and retry budgets hold integers, those of the redirect
  history hold lists. A key of the protocol is well typed when it is absent or holds a
  value of its type.
\<close>

definition int_or_absent :: "(string \<rightharpoonup> pyval) \<Rightarrow> string \<Rightarrow> bool" where
  "int_or_absent m k = (case m k of None \<Rightarrow> True | Some (PInt i) \<Rightarrow> True | Some _ \<Rightarrow> False)"

definition list_or_absent :: "(string \<rightharpoonup> pyval) \<Rightarrow> string \<Rightarrow> bool" where
  "list_or_absent m k = (case m k of None \<Rightarrow> True | Some (PList xs) \<Rightarrow> True | Some _ \<Rightarrow> False)"

text \<open>The integer under a key, with a default, and the list under a key (empty by default).\<close>

definition meta_int :: "(string \<rightharpoonup> pyval) \<Rightarrow> string \<Rightarrow> int \<Rightarrow> int" where
  "meta_int m k dflt = (case m k of Some (PInt i) \<Rightarrow> i | _ \<Rightarrow> dflt)"

definition meta_list :: "(string \<rightharpoonup> pyval) \<Rightarrow> string \<Rightarrow> pyval list" where
  "meta_list m k = (case m k of Some (PList xs) \<Rightarrow> xs | _ \<Rightarrow> [])"

section \<open>Example inputs\<close>

text \<open>The default settings, and the requests and responses of the scenarios.\<close>

definition default_redirect_mw :: redirect_mw where
  "default_redirect_mw = \<lparr>max_redirect_times = 20, priority_adjust = 2\<rparr>"

definition default_retry_mw :: retry_mw where
  "default_retry_mw =
     \<lparr>max_retry_times = 2, retry_http_codes = {500, 502, 503, 504, 522, 524, 408, 429},
      retry_priority_adjust = - 1\<rparr>"

definition default_httperror_mw :: httperror_mw where
  "default_httperror_mw = \<lparr>handle_httpstatus_all = False, handle_httpstatus_list = []\<rparr>"

definition plain_spider :: spider where
  "plain_spider = \<lparr>spider_handle_httpstatus_list = None\<rparr>"

definition empty_env :: env where
  "empty_env = \<lparr>stats = Map.empty, log = []\<rparr>"

definition get_request :: "string \<Rightarrow> (string \<rightharpoonup> pyval) \<Rightarrow> request" where
  "get_request u m =
     \<lparr>url = u, req_method = ''GET'', headers = Map.empty, body = [], cookies = CookiesDict [],
      priority = 0, dont_filter = False, meta = m\<rparr>"

definition post_request :: "string \<Rightarrow> (string \<rightharpoonup> pyval) \<Rightarrow> request" where
  "post_request u m =
     \<lparr>url = u, req_method = ''POST'',
      headers = [''content-type'' \<mapsto> [''application/json''], ''content-length'' \<mapsto> [''2''],
                 ''accept'' \<mapsto> [''*/*'']],
      body = ''{}'', cookies = CookiesDict [], priority = 5, dont_filter = False, meta = m\<rparr>"

definition status_response :: "int \<Rightarrow> (string \<rightharpoonup> string list) \<Rightarrow> (string \<rightharpoonup> pyval) \<Rightarrow> response" where
  "status_response st h m =
     \<lparr>status = st, resp_url = ''http://example.com/a'', resp_headers = h, resp_body = [],
      resp_meta = m\<rparr>"

section \<open>Redirect chains\<close>

text \<open>
  A redirect chain: each request that \<open>_redirect\<close> returns is the original of the
  next call, with a candidate and a reason of its own. The chain ends at the first call
  that raises; the result lists the requests returned along the chain.
\<close>

fun follow_redirects :: "redirect_mw \<Rightarrow> request \<Rightarrow> (request \<times> pyval) list \<Rightarrow> env \<Rightarrow> request list" where
  "follow_redirects mw request [] e = []"
| "follow_redirects mw request ((redirected, reason) # steps) e =
     (case redirect mw redirected request reason e of
        (e', request', Inl err) \<Rightarrow> []
      | (e', request', Inr r) \<Rightarrow> r # follow_redirects mw r steps e')"

text \<open>The two budget counters of a request complement each other.\<close>

definition budget_complement :: "redirect_mw \<Rightarrow> request \<Rightarrow> bool" where
  "budget_complement mw r =
     (case (meta r ''redirect_times'', meta r ''redirect_ttl'') of
        (Some (PInt n), Some (PInt t)) \<Rightarrow> n + t = max_redirect_times mw
      | _ \<Rightarrow> False)"

text \<open>The reason of a retry as the counter \<open>retry/reason_count/<reason>\<close> names it.\<close>

definition reason_name :: "retry_reason \<Rightarrow> string" where
  "reason_name reason = (case reason of ReasonStr s \<Rightarrow> s | ReasonExc x \<Rightarrow> global_object_name x)"

text \<open>The retried request: a copy of the request, stamped by \<open>_retry\<close>.\<close>

definition retried :: "retry_mw \<Rightarrow> request \<Rightarrow> request" where
  "retried mw request =
     request\<lparr>meta := (meta request)(''retry_times'' \<mapsto> PInt (meta_int (meta request) ''retry_times'' 0 + 1)),
             dont_filter := True,
             priority := priority request + retry_priority_adjust mw\<rparr>"

definition timeout_error :: exn where
  "timeout_error = PyExc ''twisted.internet.error.TimeoutError'' [''Exception'']"


section \<open>The status filter as the specification words it\<close>

text \<open>\<open>status in allowed\<close> for a list \<open>allowed\<close>.\<close>

definition status_in :: "int \<Rightarrow> pyval list \<Rightarrow> bool" where
  "status_in n xs = list_ex (\<lambda>x. py_eq (PInt n) x) xs"

text \<open>The outcome of the filter for an allow-list: pass, or \<open>HttpError\<close> with the response.\<close>

definition filter_by :: "pyval list \<Rightarrow> response \<Rightarrow> exn + unit" where
  "filter_by allowed response =
     (if status_in (status response) allowed then Inr ()
      else Inl (HttpError response ''Ignoring non-200 response''))"

text \<open>
  The precedence of the specification, in its order: (a) the meta key
  \<open>handle_httpstatus_list\<close> if present, (b) pass-through if meta
  \<open>handle_httpstatus_all\<close>, (c) the attribute of the spider if set, (d) the configured
  list. This is the specification's reading, not the code.
\<close>

definition spec_process_spider_input :: "httperror_mw \<Rightarrow> response \<Rightarrow> spider \<Rightarrow> exn + unit" where
  "spec_process_spider_input mw response sp =
    (if 200 \<le> status response \<and> status response < 300 then Inr ()
     else case resp_meta response ''handle_httpstatus_list'' of
       Some (PList xs) \<Rightarrow> filter_by xs response
     | Some _ \<Rightarrow> Inl TypeError
     | None \<Rightarrow>
        if truthy (dict_get (resp_meta response) ''handle_httpstatus_all'' (PBool False)) then Inr ()
        else (case spider_handle_httpstatus_list sp of
                Some (PList xs) \<Rightarrow> filter_by xs response
              | Some _ \<Rightarrow> Inl TypeError
              | None \<Rightarrow> filter_by (handle_httpstatus_list mw) response))"

text \<open>
  A stand-in for the url library in the examples: every location is an absolute path,
  resolved against the host \<open>http://example.com\<close>.
\<close>

definition example_url_lib :: url_lib where
  "example_url_lib = \<lparr>urljoin = (\<lambda>base loc. ''http://example.com'' @ loc), safe_url_string = (\<lambda>s. s)\<rparr>"

section \<open>Cookie jars: what the isolation property speaks of\<close>

text \<open>The dictionary key that selects the jar of a request (\<open>None\<close> when the meta has none).\<close>

definition cookiejar_key :: "request \<Rightarrow> exn + pyval" where
  "cookiejar_key request = dict_key (dict_get (meta request) ''cookiejar'' PNone)"

text \<open>
  The middleware after \<open>process_request\<close> and after \<open>process_response\<close>, and the
  request as \<open>process_request\<close> leaves it, with its \<open>Cookie\<close> header set.
\<close>

definition mw_after_request ::
  "('jar, 'cookie) jar_ops \<Rightarrow> 'jar cookies_mw \<Rightarrow> request \<Rightarrow> env \<Rightarrow> 'jar cookies_mw" where
  "mw_after_request ops mw request e = fst (snd (CookiesMiddleware_process_request ops mw request e))"

definition mw_after_response ::
  "('jar, 'cookie) jar_ops \<Rightarrow> 'jar cookies_mw \<Rightarrow> request \<Rightarrow> response \<Rightarrow> env \<Rightarrow> 'jar cookies_mw" where
  "mw_after_response ops mw request response e =
     fst (snd (CookiesMiddleware_process_response ops mw request response e))"

definition request_sent ::
  "('jar, 'cookie) jar_ops \<Rightarrow> 'jar cookies_mw \<Rightarrow> request \<Rightarrow> env \<Rightarrow> request" where
  "request_sent ops mw request e =
     fst (snd (snd (CookiesMiddleware_process_request ops mw request e)))"

text \<open>
  A jar for the examples: the list of the cookie strings it holds. It accepts every
  cookie and sends all it holds, each as one value of the \<open>Cookie\<close> header.
\<close>

definition list_jar_ops :: "(string list, string) jar_ops" where
  "list_jar_ops =
     \<lparr>CookieJar = [],
      make_cookies = (\<lambda>jar response request. headers_getlist (resp_headers response) ''Set-Cookie''),
      set_cookie_if_ok = (\<lambda>jar cookie request. jar @ [cookie]),
      add_cookie_header = (\<lambda>jar request.
         (jar, if jar = [] then request
               else request\<lparr>headers := (headers request)(normkey ''Cookie'' \<mapsto> jar)\<rparr>)),
      extract_cookies = (\<lambda>jar response request.
         jar @ headers_getlist (resp_headers response) ''Set-Cookie'')\<rparr>"

definition fresh_cookies_mw :: "string list cookies_mw" where
  "fresh_cookies_mw = \<lparr>jars = Map.empty, debug = False\<rparr>"

section \<open>Auxiliary facts\<close>

lemma dict_get_int:
  "int_or_absent m k \<Longrightarrow> dict_get m k (PInt d) = PInt (meta_int m k d)"
  by (simp add: int_or_absent_def dict_get_def meta_int_def split: option.splits pyval.splits)

lemma dict_get_list:
  "list_or_absent m k \<Longrightarrow> dict_get m k (PList []) = PList (meta_list m k)"
  by (simp add: list_or_absent_def dict_get_def meta_list_def split: option.splits pyval.splits)

lemma dict_setdefault_eq:
  "dict_setdefault m k d = (dict_get m k d, if m k = None then m(k \<mapsto> d) else m)"
  by (simp add: dict_setdefault_def dict_get_def split: option.splits)

lemma dict_get_other:
  "k' \<noteq> k \<Longrightarrow> dict_get (if m k = None then m(k \<mapsto> d) else m) k' d' = dict_get m k' d'"
  by (simp add: dict_get_def)

lemma py_add_int_PInt [simp]: "py_add_int (PInt i) n = Inr (i + n)"
  by (simp add: py_add_int_def)

lemma py_sub_int_PInt [simp]: "py_sub_int (PInt i) n = Inr (i - n)"
  by (simp add: py_sub_int_def)

lemma py_append_PList [simp]: "py_append (PList xs) x = Inr (PList (xs @ [x]))"
  by (simp add: py_append_def)

section \<open>The redirect core\<close>

text \<open>
  C1. For a call \<open>_redirect(redirected, request, spider, reason)\<close> on a request whose
  redirect keys are well typed, let \<open>ttl\<close> be \<open>meta['redirect_ttl']\<close> if present and
  \<open>max_redirect_times\<close> otherwise, and \<open>redirects\<close> be
  \<open>meta.get('redirect_times', 0) + 1\<close>. If \<open>ttl\<close> is nonzero and
  \<open>redirects \<le> max_redirect_times\<close>, the candidate is returned with
  \<open>redirect_times = redirects\<close>, \<open>redirect_ttl = ttl - 1\<close>, the url of the request
  appended to \<open>redirect_urls\<close>, the reason appended to \<open>redirect_reasons\<close>,
  \<open>dont_filter\<close> copied from the request and the priority of the request plus
  \<open>priority_adjust\<close>; otherwise \<open>IgnoreRequest("max redirections reached")\<close> is
  raised and no request is returned.
\<close>

theorem redirect_core:
  assumes "int_or_absent (meta request) ''redirect_ttl''"
      and "int_or_absent (meta request) ''redirect_times''"
      and "list_or_absent (meta request) ''redirect_urls''"
      and "list_or_absent (meta request) ''redirect_reasons''"
  shows "snd (snd (redirect mw redirected request reason e)) =
     (let ttl = meta_int (meta request) ''redirect_ttl'' (max_redirect_times mw);
          redirects = meta_int (meta request) ''redirect_times'' 0 + 1
      in if ttl \<noteq> 0 \<and> redirects \<le> max_redirect_times mw then
           Inr (redirected
                 \<lparr>priority := priority request + priority_adjust mw,
                  dont_filter := dont_filter request,
                  meta := (meta redirected)
                    (''redirect_times'' \<mapsto> PInt redirects,
                     ''redirect_ttl'' \<mapsto> PInt (ttl - 1),
                     ''redirect_urls'' \<mapsto>
                        PList (meta_list (meta request) ''redirect_urls'' @ [PStr (url request)]),
                     ''redirect_reasons'' \<mapsto>
                        PList (meta_list (meta request) ''redirect_reasons'' @ [reason]))\<rparr>)
         else Inl (IgnoreRequest ''max redirections reached''))"
  using assms
  by (simp add: redirect_def dict_setdefault_eq dict_get_other dict_get_int dict_get_list Let_def)

theorem redirect_core_witness:
  "snd (snd (redirect default_redirect_mw (get_request ''http://example.com/new'' Map.empty)
               (get_request ''http://example.com/old'' Map.empty) (PInt 301) empty_env)) =
     Inr ((get_request ''http://example.com/new'' Map.empty)
           \<lparr>priority := 2, dont_filter := False,
            meta := [''redirect_times'' \<mapsto> PInt 1, ''redirect_ttl'' \<mapsto> PInt 19,
                     ''redirect_urls'' \<mapsto> PList [PStr ''http://example.com/old''],
                     ''redirect_reasons'' \<mapsto> PList [PInt 301]]\<rparr>)
   \<and> snd (snd (redirect default_redirect_mw (get_request ''http://example.com/new'' Map.empty)
               (get_request ''http://example.com/old'' [''redirect_times'' \<mapsto> PInt 20])
               (PInt 301) empty_env)) =
     Inl (IgnoreRequest ''max redirections reached'')"
  using redirect_core [of "get_request ''http://example.com/old'' Map.empty"
          default_redirect_mw "get_request ''http://example.com/new'' Map.empty" "PInt 301" empty_env]
        redirect_core [of "get_request ''http://example.com/old'' [''redirect_times'' \<mapsto> PInt 20]"
          default_redirect_mw "get_request ''http://example.com/new'' Map.empty" "PInt 301" empty_env]
  by (simp add: int_or_absent_def list_or_absent_def meta_int_def meta_list_def
        default_redirect_mw_def get_request_def)

section \<open>The budget counters along a redirect chain\<close>

lemma dict_setdefault_fst: "fst (dict_setdefault m k d) = dict_get m k d"
  by (simp add: dict_setdefault_def dict_get_def split: option.splits)


lemma dict_setdefault_snd_other:
  "k' \<noteq> k \<Longrightarrow> dict_get (snd (dict_setdefault m k d)) k' d' = dict_get m k' d'"
  by (simp add: dict_setdefault_def dict_get_def split: option.splits)

text \<open>What \<open>_redirect\<close> does when the two budget keys are well typed.\<close>

lemma redirect_outcome:
  assumes "int_or_absent (meta request) ''redirect_ttl''"
      and "int_or_absent (meta request) ''redirect_times''"
  shows "snd (snd (redirect mw cand request reason e)) =
    (let ttl = meta_int (meta request) ''redirect_ttl'' (max_redirect_times mw);
         redirects = meta_int (meta request) ''redirect_times'' 0 + 1
     in if ttl \<noteq> 0 \<and> redirects \<le> max_redirect_times mw then
          (case py_append (dict_get (meta request) ''redirect_urls'' (PList [])) (PStr (url request)) of
             Inl err \<Rightarrow> Inl err
           | Inr urls \<Rightarrow>
              (case py_append (dict_get (meta request) ''redirect_reasons'' (PList [])) reason of
                 Inl err \<Rightarrow> Inl err
               | Inr reasons \<Rightarrow>
                   Inr (cand\<lparr>priority := priority request + priority_adjust mw,
                             dont_filter := dont_filter request,
                             meta := (meta cand)
                               (''redirect_times'' \<mapsto> PInt redirects,
                                ''redirect_ttl'' \<mapsto> PInt (ttl - 1),
                                ''redirect_urls'' \<mapsto> urls,
                                ''redirect_reasons'' \<mapsto> reasons)\<rparr>)))
        else Inl (IgnoreRequest ''max redirections reached''))"
  using assms
  by (simp add: redirect_def split_beta dict_setdefault_fst dict_setdefault_snd_other
        dict_get_int Let_def split: sum.split)

lemma redirect_budget_step:
  assumes "snd (snd (redirect mw cand request reason e)) = Inr r"
      and "int_or_absent (meta request) ''redirect_ttl''"
      and "int_or_absent (meta request) ''redirect_times''"
  shows "meta r ''redirect_times'' = Some (PInt (meta_int (meta request) ''redirect_times'' 0 + 1))
       \<and> meta r ''redirect_ttl'' =
           Some (PInt (meta_int (meta request) ''redirect_ttl'' (max_redirect_times mw) - 1))"
  using assms(1) unfolding redirect_outcome[OF assms(2,3)] Let_def
  by (auto split: sum.splits if_splits)

lemma budget_complement_iff:
  "budget_complement mw r \<longleftrightarrow>
     (\<exists>n t. meta r ''redirect_times'' = Some (PInt n) \<and> meta r ''redirect_ttl'' = Some (PInt t)
            \<and> n + t = max_redirect_times mw)"
proof (cases "meta r ''redirect_times''")
  case None
  then show ?thesis by (simp add: budget_complement_def)
next
  case n: (Some a)
  show ?thesis
  proof (cases "meta r ''redirect_ttl''")
    case None
    with n show ?thesis by (cases a; simp add: budget_complement_def)
  next
    case (Some b)
    with n show ?thesis by (cases a; cases b; simp add: budget_complement_def)
  qed
qed

text \<open>
  One redirect keeps the invariant, and establishes it from a request that has neither
  budget key.
\<close>

lemma budget_complement_step:
  assumes "snd (snd (redirect mw cand request reason e)) = Inr r"
      and "(meta request ''redirect_ttl'' = None \<and> meta request ''redirect_times'' = None)
           \<or> budget_complement mw request"
  shows "budget_complement mw r"
proof -
  from assms(2) have t: "int_or_absent (meta request) ''redirect_ttl''"
    "int_or_absent (meta request) ''redirect_times''"
    by (auto simp: int_or_absent_def budget_complement_iff)
  from assms(2) have "meta_int (meta request) ''redirect_times'' 0 + 1
      + (meta_int (meta request) ''redirect_ttl'' (max_redirect_times mw) - 1) = max_redirect_times mw"
    by (auto simp: meta_int_def budget_complement_iff)
  with redirect_budget_step[OF assms(1) t] show ?thesis
    unfolding budget_complement_iff by blast
qed

lemma follow_redirects_complement:
  "(meta request ''redirect_ttl'' = None \<and> meta request ''redirect_times'' = None)
     \<or> budget_complement mw request
   \<Longrightarrow> r \<in> set (follow_redirects mw request steps e) \<Longrightarrow> budget_complement mw r"
proof (induction steps arbitrary: request e)
  case Nil
  then show ?case by simp
next
  case (Cons s steps)
  obtain cand reason where s: "s = (cand, reason)" by (cases s)
  obtain e' rq' res where red: "redirect mw cand request reason e = (e', rq', res)"
    by (cases "redirect mw cand request reason e")
  show ?case
  proof (cases res)
    case (Inl err)
    with Cons.prems s red show ?thesis by simp
  next
    case (Inr r1)
    with red have "snd (snd (redirect mw cand request reason e)) = Inr r1" by simp
    from budget_complement_step[OF this Cons.prems(1)] have inv1: "budget_complement mw r1" .
    from Cons.prems(2) s red Inr have "r = r1 \<or> r \<in> set (follow_redirects mw r1 steps e')" by simp
    then show ?thesis using inv1 Cons.IH[of r1 e'] by blast
  qed
qed

text \<open>
  C10. Along a redirect chain whose initial request has neither \<open>redirect_ttl\<close> nor
  \<open>redirect_times\<close> in its meta, every request that \<open>_redirect\<close> returns holds
  integers under both keys, and they add up to \<open>max_redirect_times\<close>.
\<close>

theorem redirect_budget_complement:
  assumes "meta request ''redirect_ttl'' = None" and "meta request ''redirect_times'' = None"
      and "r \<in> set (follow_redirects mw request steps e)"
  shows "budget_complement mw r"
  using follow_redirects_complement[of request mw r steps e] assms by blast

lemma example_chain:
  "map (\<lambda>r. (url r, meta r ''redirect_times'', meta r ''redirect_ttl''))
     (follow_redirects default_redirect_mw (get_request ''http://example.com/a'' Map.empty)
        [(get_request ''http://example.com/b'' Map.empty, PInt 301),
         (get_request ''http://example.com/c'' Map.empty, PInt 302)] empty_env) =
   [(''http://example.com/b'', Some (PInt 1), Some (PInt 19)),
    (''http://example.com/c'', Some (PInt 2), Some (PInt 18))]"
  by (simp add: redirect_def dict_setdefault_def dict_get_def get_request_def
        default_redirect_mw_def logger_debug_def empty_env_def)

theorem redirect_budget_complement_witness:
  "length (follow_redirects default_redirect_mw (get_request ''http://example.com/a'' Map.empty)
        [(get_request ''http://example.com/b'' Map.empty, PInt 301),
         (get_request ''http://example.com/c'' Map.empty, PInt 302)] empty_env) = 2
   \<and> budget_complement default_redirect_mw
       (last (follow_redirects default_redirect_mw (get_request ''http://example.com/a'' Map.empty)
        [(get_request ''http://example.com/b'' Map.empty, PInt 301),
         (get_request ''http://example.com/c'' Map.empty, PInt 302)] empty_env))"
proof -
  let ?chain = "follow_redirects default_redirect_mw (get_request ''http://example.com/a'' Map.empty)
        [(get_request ''http://example.com/b'' Map.empty, PInt 301),
         (get_request ''http://example.com/c'' Map.empty, PInt 302)] empty_env"
  have len: "length ?chain = 2"
    using arg_cong[OF example_chain, of length] by simp
  then have mem: "last ?chain \<in> set ?chain"
    by (intro last_in_set) auto
  have a: "meta (get_request ''http://example.com/a'' Map.empty) ''redirect_ttl'' = None"
    and b: "meta (get_request ''http://example.com/a'' Map.empty) ''redirect_times'' = None"
    by (simp_all add: get_request_def)
  from redirect_budget_complement[OF a b mem] len show ?thesis by simp
qed

section \<open>What a redirect writes to the original request\<close>





section \<open>The retry budget\<close>

lemma stat_inc_value: "stat (inc_value k e) k' = (if k' = k then stat e k + 1 else stat e k')"
  by (simp add: stat_def inc_value_def dict_get_def)

lemma stat_logger_debug [simp]: "stat (logger_debug msg e) k = stat e k"
  by (simp add: stat_def logger_debug_def)

lemma stat_logger_info [simp]: "stat (logger_info msg e) k = stat e k"
  by (simp add: stat_def logger_info_def)

lemma log_inc_value [simp]: "log (inc_value k e) = log e"
  by (simp add: inc_value_def)

lemma py_int_le_PInt [simp]: "py_int_le n (PInt i) = Inr (n \<le> i)"
  by (simp add: py_int_le_def)

lemma meta_budget:
  "int_or_absent m k \<Longrightarrow> (case m k of None \<Rightarrow> PInt d | Some v \<Rightarrow> v) = PInt (meta_int m k d)"
  by (simp add: int_or_absent_def meta_int_def split: option.splits pyval.splits)

lemma retry_outcome:
  assumes "int_or_absent (meta request) ''retry_times''"
      and "int_or_absent (meta request) ''max_retry_times''"
  shows "retry mw request reason e =
    (let retries = meta_int (meta request) ''retry_times'' 0 + 1;
         budget = meta_int (meta request) ''max_retry_times'' (max_retry_times mw)
     in if retries \<le> budget then
          (inc_value (''retry/reason_count/'' @ reason_name reason)
             (inc_value ''retry/count''
                (logger_debug ''Retrying %(request)s (failed %(retries)d times): %(reason)s'' e)),
           Inr (Some (retried mw request)))
        else
          (logger_debug ''Gave up retrying %(request)s (failed %(retries)d times): %(reason)s''
             (inc_value ''retry/max_reached'' e), Inr None))"
  using assms
  by (simp add: retry_def dict_get_int meta_budget Let_def request_copy_def reason_name_def retried_def)

text \<open>
  C2. For a call \<open>_retry(request, reason, spider)\<close> on a request whose retry keys are
  well typed, let \<open>retries\<close> be \<open>meta.get('retry_times', 0) + 1\<close> and the budget be
  \<open>meta['max_retry_times']\<close> if present and \<open>RETRY_TIMES\<close> otherwise. If
  \<open>retries \<le> budget\<close>, a copy of the request is returned with
  \<open>retry_times = retries\<close>, \<open>dont_filter\<close> true and the priority of the request plus
  \<open>priority_adjust\<close>, and the counters \<open>retry/count\<close> and
  \<open>retry/reason_count/<reason>\<close> are incremented by one. If \<open>retries > budget\<close>,
  nothing is returned and \<open>retry/max_reached\<close> is incremented by one. So a request
  already retried exactly budget times is not retried again.
\<close>

theorem retry_core:
  assumes "int_or_absent (meta request) ''retry_times''"
      and "int_or_absent (meta request) ''max_retry_times''"
  shows "let retries = meta_int (meta request) ''retry_times'' 0 + 1;
             budget = meta_int (meta request) ''max_retry_times'' (max_retry_times mw);
             (e', result) = retry mw request reason e
         in (retries \<le> budget \<longrightarrow>
               result = Inr (Some (request\<lparr>meta := (meta request)(''retry_times'' \<mapsto> PInt retries),
                                           dont_filter := True,
                                           priority := priority request + retry_priority_adjust mw\<rparr>))
               \<and> stat e' ''retry/count'' = stat e ''retry/count'' + 1
               \<and> stat e' (''retry/reason_count/'' @ reason_name reason)
                   = stat e (''retry/reason_count/'' @ reason_name reason) + 1
               \<and> stat e' ''retry/max_reached'' = stat e ''retry/max_reached'')
          \<and> (budget < retries \<longrightarrow>
               result = Inr None
               \<and> stat e' ''retry/max_reached'' = stat e ''retry/max_reached'' + 1
               \<and> stat e' ''retry/count'' = stat e ''retry/count'')
          \<and> (meta_int (meta request) ''retry_times'' 0 = budget \<longrightarrow> result = Inr None)"
  unfolding retry_outcome[OF assms]
  by (simp add: Let_def stat_inc_value retried_def)

theorem retry_core_witness:
  "(let (e', result) = retry default_retry_mw (get_request ''http://example.com/a'' Map.empty)
                         (ReasonExc timeout_error) empty_env
    in result = Inr (Some ((get_request ''http://example.com/a'' [''retry_times'' \<mapsto> PInt 1])
                            \<lparr>dont_filter := True, priority := - 1\<rparr>))
       \<and> stat e' ''retry/count'' = 1
       \<and> stat e' ''retry/reason_count/twisted.internet.error.TimeoutError'' = 1
       \<and> stat e' ''retry/max_reached'' = 0)
   \<and> (let (e', result) = retry default_retry_mw
                         (get_request ''http://example.com/a'' [''retry_times'' \<mapsto> PInt 2])
                         (ReasonStr ''429 Unknown Status'') empty_env
    in result = Inr None \<and> stat e' ''retry/max_reached'' = 1 \<and> stat e' ''retry/count'' = 0)"
  using retry_core [where request = "get_request ''http://example.com/a'' Map.empty"
          and mw = default_retry_mw and reason = "ReasonExc timeout_error" and e = empty_env]
        retry_core [where request = "get_request ''http://example.com/a'' [''retry_times'' \<mapsto> PInt 2]"
          and mw = default_retry_mw and reason = "ReasonStr ''429 Unknown Status''" and e = empty_env]
  by (simp add: int_or_absent_def meta_int_def get_request_def default_retry_mw_def Let_def
        split_beta reason_name_def global_object_name_def timeout_error_def stat_def
        empty_env_def dict_get_def)



section \<open>The status filter\<close>

lemma py_int_in_PList [simp]: "py_int_in n (PList xs) = Inr (status_in n xs)"
  by (simp only: py_int_in_def status_in_def pyval.case)

text \<open>
  C9. For a response whose status is outside [200, 300), if the key
  \<open>handle_httpstatus_all\<close> is present in the meta, whatever its value (\<open>False\<close>
  included) and whatever the meta holds under \<open>handle_httpstatus_list\<close>,
  \<open>process_spider_input\<close> returns nothing and raises nothing.
\<close>

theorem httperror_presence_check:
  assumes "\<not> (200 \<le> status response \<and> status response < 300)"
      and "resp_meta response ''handle_httpstatus_all'' = Some v"
  shows "process_spider_input mw response sp = Inr ()"
  using assms by (simp add: process_spider_input_def Let_def)

theorem httperror_presence_check_witness:
  "process_spider_input default_httperror_mw
     (status_response 404 Map.empty
        [''handle_httpstatus_all'' \<mapsto> PBool False, ''handle_httpstatus_list'' \<mapsto> PList [PInt 500]])
     plain_spider = Inr ()"
  using httperror_presence_check [where mw = default_httperror_mw and sp = plain_spider
          and v = "PBool False"
          and response = "status_response 404 Map.empty
             [''handle_httpstatus_all'' \<mapsto> PBool False, ''handle_httpstatus_list'' \<mapsto> PList [PInt 500]]"]
  by (simp add: status_response_def)

text \<open>
  C3, as stated, fails: with both meta keys present and the status outside the list under
  \<open>handle_httpstatus_list\<close>, the specification's order (the list first) raises
  \<open>HttpError\<close>, and the code lets the response pass.
\<close>

theorem httperror_precedence_counterexample:
  "process_spider_input default_httperror_mw
     (status_response 500 Map.empty
        [''handle_httpstatus_all'' \<mapsto> PBool True, ''handle_httpstatus_list'' \<mapsto> PList [PInt 404]])
     plain_spider = Inr ()
   \<and> spec_process_spider_input default_httperror_mw
     (status_response 500 Map.empty
        [''handle_httpstatus_all'' \<mapsto> PBool True, ''handle_httpstatus_list'' \<mapsto> PList [PInt 404]])
     plain_spider =
      Inl (HttpError (status_response 500 Map.empty
        [''handle_httpstatus_all'' \<mapsto> PBool True, ''handle_httpstatus_list'' \<mapsto> PList [PInt 404]])
        ''Ignoring non-200 response'')"
  by (simp add: process_spider_input_def spec_process_spider_input_def status_response_def
        filter_by_def status_in_def Let_def)

text \<open>
  C3, amended. A response with status in [200, 300) passes. For any other status the
  code decides in this order: the response passes if the key \<open>handle_httpstatus_all\<close>
  is present in the meta; else the allow-list is the meta value of
  \<open>handle_httpstatus_list\<close> if that key is present; else the response passes if the
  setting \<open>HTTPERROR_ALLOW_ALL\<close> is true; else the allow-list is the attribute
  \<open>handle_httpstatus_list\<close> of the spider if set, and \<open>HTTPERROR_ALLOWED_CODES\<close>
  otherwise. With an allow-list, the response passes if and only if its status is in
  the list, and \<open>HttpError\<close> carrying the response is raised otherwise.
\<close>

theorem httperror_precedence:
  "(200 \<le> status response \<and> status response < 300
      \<longrightarrow> process_spider_input mw response sp = Inr ())
   \<and> (\<not> (200 \<le> status response \<and> status response < 300) \<longrightarrow>
       (resp_meta response ''handle_httpstatus_all'' \<noteq> None
          \<longrightarrow> process_spider_input mw response sp = Inr ())
     \<and> (resp_meta response ''handle_httpstatus_all'' = None \<longrightarrow>
         (\<forall>xs. resp_meta response ''handle_httpstatus_list'' = Some (PList xs)
            \<longrightarrow> process_spider_input mw response sp = filter_by xs response)
       \<and> (resp_meta response ''handle_httpstatus_list'' = None \<longrightarrow>
           (handle_httpstatus_all mw \<longrightarrow> process_spider_input mw response sp = Inr ())
         \<and> (\<not> handle_httpstatus_all mw \<longrightarrow>
             (\<forall>xs. spider_handle_httpstatus_list sp = Some (PList xs)
                \<longrightarrow> process_spider_input mw response sp = filter_by xs response)
           \<and> (spider_handle_httpstatus_list sp = None
                \<longrightarrow> process_spider_input mw response sp
                      = filter_by (handle_httpstatus_list mw) response)))))"
  by (simp add: process_spider_input_def Let_def filter_by_def getattr_handle_httpstatus_list_def)

theorem httperror_precedence_witness:
  "process_spider_input default_httperror_mw
     (status_response 404 Map.empty [''handle_httpstatus_list'' \<mapsto> PList [PInt 404]])
     plain_spider = Inr ()
   \<and> process_spider_input default_httperror_mw (status_response 404 Map.empty Map.empty)
     plain_spider =
       Inl (HttpError (status_response 404 Map.empty Map.empty) ''Ignoring non-200 response'')
   \<and> process_spider_input default_httperror_mw (status_response 204 Map.empty Map.empty)
     plain_spider = Inr ()"
  using httperror_precedence [where mw = default_httperror_mw and sp = plain_spider
          and response = "status_response 404 Map.empty [''handle_httpstatus_list'' \<mapsto> PList [PInt 404]]"]
        httperror_precedence [where mw = default_httperror_mw and sp = plain_spider
          and response = "status_response 404 Map.empty Map.empty"]
        httperror_precedence [where mw = default_httperror_mw and sp = plain_spider
          and response = "status_response 204 Map.empty Map.empty"]
  by (simp add: status_response_def default_httperror_mw_def plain_spider_def filter_by_def
        status_in_def)

section \<open>The exception hook of the status filter\<close>

lemma log_logger_info [simp]: "log (logger_info msg e) = log e @ [(INFO, msg)]"
  by (simp add: logger_info_def)

lemma isinstance_HttpError:
  "isinstance (HttpError r msg) [''scrapy.spidermiddlewares.httperror.HttpError'']"
  by (simp add: isinstance_def)

text \<open>
  C6. Given an \<open>HttpError\<close>, \<open>process_spider_exception\<close> returns the empty list,
  increments \<open>httperror/response_ignored_count\<close> by one and
  \<open>httperror/response_ignored_status_count/<status>\<close> by one, leaves every other
  counter as it was, and logs one record. Given an exception that is not an
  \<open>HttpError\<close>, it returns nothing and changes nothing.
\<close>

theorem httperror_exception_hook:
  "(isinstance exception [''scrapy.spidermiddlewares.httperror.HttpError''] \<longrightarrow>
      (let (e', result) = process_spider_exception mw response exception sp e;
           total = ''httperror/response_ignored_count'';
           per_status = ''httperror/response_ignored_status_count/'' @ str_int (status response)
       in result = Some []
          \<and> stat e' total = stat e total + 1
          \<and> stat e' per_status = stat e per_status + 1
          \<and> (\<forall>k. k \<noteq> total \<and> k \<noteq> per_status \<longrightarrow> stat e' k = stat e k)
          \<and> log e' = log e @ [(INFO,
               ''Ignoring response %(response)r: HTTP status code is not handled or not allowed'')]))
   \<and> (\<not> isinstance exception [''scrapy.spidermiddlewares.httperror.HttpError''] \<longrightarrow>
        process_spider_exception mw response exception sp e = (e, None))"
  by (simp add: process_spider_exception_def Let_def stat_inc_value)

theorem httperror_exception_hook_witness:
  "(let (e', result) = process_spider_exception default_httperror_mw
                         (status_response 404 Map.empty Map.empty)
                         (HttpError (status_response 404 Map.empty Map.empty) ''Ignoring non-200 response'')
                         plain_spider empty_env
    in result = Some []
       \<and> stat e' ''httperror/response_ignored_count'' = 1
       \<and> stat e' ''httperror/response_ignored_status_count/404'' = 1
       \<and> length (log e') = 1)
   \<and> process_spider_exception default_httperror_mw (status_response 404 Map.empty Map.empty)
        (IgnoreRequest ''max redirections reached'') plain_spider empty_env = (empty_env, None)"
  using httperror_exception_hook [where mw = default_httperror_mw and sp = plain_spider
          and e = empty_env and response = "status_response 404 Map.empty Map.empty"
          and exception = "HttpError (status_response 404 Map.empty Map.empty) ''Ignoring non-200 response''"]
        httperror_exception_hook [where mw = default_httperror_mw and sp = plain_spider
          and e = empty_env and response = "status_response 404 Map.empty Map.empty"
          and exception = "IgnoreRequest ''max redirections reached''"]
  by (simp add: isinstance_def split_beta Let_def str_int_def str_nat.simps status_response_def
        stat_def empty_env_def dict_get_def)

section \<open>The HTTP redirect policy\<close>

lemma normkey_Location: "normkey ''Location'' = ''location''"
  by code_simp

lemma normkey_location: "normkey ''location'' = ''location''"
  by code_simp

lemma normkey_Content_Type: "normkey ''Content-Type'' = ''content-type''"
  by code_simp

lemma normkey_Content_Length: "normkey ''Content-Length'' = ''content-length''"
  by code_simp

lemma wrap_redirect:
  "snd (snd (case p of (e', rq, Inl err) \<Rightarrow> (e', rq, Inl err)
                     | (e', rq, Inr r) \<Rightarrow> (e', rq, Inr (Req r)))) =
     (case snd (snd p) of Inl err \<Rightarrow> Inl err | Inr r \<Rightarrow> Inr (Req r))"
  by (auto split: prod.splits sum.splits)

text \<open>The request that \<open>process_response\<close> hands to \<open>_redirect\<close> as the candidate.\<close>

lemma process_response_redirects:
  assumes "\<not> truthy (dict_get (meta request) ''dont_redirect'' (PBool False))"
      and "\<not> truthy (dict_get (meta request) ''handle_httpstatus_all'' (PBool False))"
      and "py_int_in (status response) (getattr_handle_httpstatus_list sp (PList [])) = Inr False"
      and "py_int_in (status response) (dict_get (meta request) ''handle_httpstatus_list'' (PList []))
             = Inr False"
      and "status response \<in> {301, 302, 303, 307, 308}"
      and "headers_getitem (resp_headers response) ''Location'' = Inr (Some loc)"
  shows "snd (snd (RedirectMiddleware_process_response lib mw request response sp e)) =
     (case snd (snd (redirect mw
              (if status response \<in> {301, 307, 308} \<or> req_method request = ''HEAD''
               then request_replace request (urljoin lib (url request) (safe_url_string lib loc)) None None
               else redirect_request_using_get request
                      (urljoin lib (url request) (safe_url_string lib loc)))
              request (PInt (status response)) e)) of
        Inl err \<Rightarrow> Inl err | Inr r \<Rightarrow> Inr (Req r))"
proof -
  from assms(6) have c: "headers_contains (resp_headers response) ''Location''"
    by (simp add: headers_getitem_def headers_contains_def split: option.splits)
  from assms(6) have g: "headers_getitem (resp_headers response) ''location'' = Inr (Some loc)"
    by (simp add: headers_getitem_def normkey_Location normkey_location)
  show ?thesis
    unfolding RedirectMiddleware_process_response_def Let_def
    using assms(1-5) c g
    by (simp only: if_False if_True sum.case bool.case not_True_eq_False not_False_eq_True
          wrap_redirect simp_thms option.case)
qed

lemma redirect_typed:
  assumes "int_or_absent (meta request) ''redirect_ttl''"
      and "int_or_absent (meta request) ''redirect_times''"
      and "list_or_absent (meta request) ''redirect_urls''"
      and "list_or_absent (meta request) ''redirect_reasons''"
      and "meta_int (meta request) ''redirect_ttl'' (max_redirect_times mw) \<noteq> 0"
      and "meta_int (meta request) ''redirect_times'' 0 + 1 \<le> max_redirect_times mw"
  shows "snd (snd (redirect mw cand request reason e)) =
           Inr (cand\<lparr>priority := priority request + priority_adjust mw,
                     dont_filter := dont_filter request,
                     meta := (meta cand)
                       (''redirect_times'' \<mapsto> PInt (meta_int (meta request) ''redirect_times'' 0 + 1),
                        ''redirect_ttl'' \<mapsto>
                           PInt (meta_int (meta request) ''redirect_ttl'' (max_redirect_times mw) - 1),
                        ''redirect_urls'' \<mapsto>
                           PList (meta_list (meta request) ''redirect_urls'' @ [PStr (url request)]),
                        ''redirect_reasons'' \<mapsto>
                           PList (meta_list (meta request) ''redirect_reasons'' @ [reason]))\<rparr>)"
  using assms(5,6)
  by (simp add: redirect_outcome[OF assms(1,2)] dict_get_list[OF assms(3)]
        dict_get_list[OF assms(4)] Let_def)

text \<open>
  C4. When \<open>RedirectMiddleware.process_response\<close> handles an HTTP redirect (status
  in 301, 302, 303, 307, 308, a \<open>Location\<close> header, no disabling meta key or spider
  attribute) and the redirect budget is left, it returns a request whose url is the
  \<open>Location\<close> value resolved against the url of the original request. For status 301,
  307 or 308, or when the original method is \<open>HEAD\<close>, that request has the method, the
  body and the headers of the original; otherwise it has the method \<open>GET\<close>, an empty
  body and no \<open>Content-Type\<close> or \<open>Content-Length\<close> header, its other headers being
  those of the original.
\<close>

theorem http_redirect_policy:
  assumes "\<not> truthy (dict_get (meta request) ''dont_redirect'' (PBool False))"
      and "\<not> truthy (dict_get (meta request) ''handle_httpstatus_all'' (PBool False))"
      and "py_int_in (status response) (getattr_handle_httpstatus_list sp (PList [])) = Inr False"
      and "py_int_in (status response) (dict_get (meta request) ''handle_httpstatus_list'' (PList []))
             = Inr False"
      and "status response \<in> {301, 302, 303, 307, 308}"
      and "headers_getitem (resp_headers response) ''Location'' = Inr (Some loc)"
      and "int_or_absent (meta request) ''redirect_ttl''"
      and "int_or_absent (meta request) ''redirect_times''"
      and "list_or_absent (meta request) ''redirect_urls''"
      and "list_or_absent (meta request) ''redirect_reasons''"
      and "meta_int (meta request) ''redirect_ttl'' (max_redirect_times mw) \<noteq> 0"
      and "meta_int (meta request) ''redirect_times'' 0 + 1 \<le> max_redirect_times mw"
  shows "\<exists>r. snd (snd (RedirectMiddleware_process_response lib mw request response sp e)) = Inr (Req r)
           \<and> url r = urljoin lib (url request) (safe_url_string lib loc)
           \<and> (status response \<in> {301, 307, 308} \<or> req_method request = ''HEAD'' \<longrightarrow>
                 req_method r = req_method request \<and> body r = body request
                 \<and> headers r = headers request)
           \<and> (\<not> (status response \<in> {301, 307, 308} \<or> req_method request = ''HEAD'') \<longrightarrow>
                 req_method r = ''GET'' \<and> body r = []
                 \<and> \<not> headers_contains (headers r) ''Content-Type''
                 \<and> \<not> headers_contains (headers r) ''Content-Length''
                 \<and> (\<forall>k. k \<noteq> normkey ''Content-Type'' \<and> k \<noteq> normkey ''Content-Length''
                        \<longrightarrow> headers r k = headers request k))"
proof -
  let ?u = "urljoin lib (url request) (safe_url_string lib loc)"
  let ?cand = "if status response \<in> {301, 307, 308} \<or> req_method request = ''HEAD''
               then request_replace request ?u None None
               else redirect_request_using_get request ?u"
  obtain m where red: "snd (snd (redirect mw ?cand request (PInt (status response)) e)) =
           Inr (?cand\<lparr>priority := priority request + priority_adjust mw,
                     dont_filter := dont_filter request, meta := m\<rparr>)"
    using redirect_typed[OF assms(7-12), of ?cand "PInt (status response)" e] by blast
  let ?r = "?cand\<lparr>priority := priority request + priority_adjust mw,
                     dont_filter := dont_filter request, meta := m\<rparr>"
  have res: "snd (snd (RedirectMiddleware_process_response lib mw request response sp e)) = Inr (Req ?r)"
    unfolding process_response_redirects[OF assms(1-6)] red by simp
  have u: "url ?r = ?u"
    by (simp add: request_replace_def redirect_request_using_get_def Let_def)
  have keep: "status response \<in> {301, 307, 308} \<or> req_method request = ''HEAD'' \<Longrightarrow>
                 req_method ?r = req_method request \<and> body ?r = body request
                 \<and> headers ?r = headers request"
    by (simp add: request_replace_def)
  have get: "\<not> (status response \<in> {301, 307, 308} \<or> req_method request = ''HEAD'') \<Longrightarrow>
                 req_method ?r = ''GET'' \<and> body ?r = []
                 \<and> \<not> headers_contains (headers ?r) ''Content-Type''
                 \<and> \<not> headers_contains (headers ?r) ''Content-Length''
                 \<and> (\<forall>k. k \<noteq> normkey ''Content-Type'' \<and> k \<noteq> normkey ''Content-Length''
                        \<longrightarrow> headers ?r k = headers request k)"
    by (simp add: request_replace_def redirect_request_using_get_def Let_def headers_pop_def
          headers_contains_def)
  from res u keep get show ?thesis by blast
qed

theorem http_redirect_policy_witness:
  "\<exists>r. snd (snd (RedirectMiddleware_process_response example_url_lib default_redirect_mw
                    (post_request ''http://example.com/old'' Map.empty)
                    (status_response 302 [''location'' \<mapsto> [''/new'']] Map.empty)
                    plain_spider empty_env)) = Inr (Req r)
       \<and> url r = ''http://example.com/new'' \<and> req_method r = ''GET'' \<and> body r = []
       \<and> \<not> headers_contains (headers r) ''Content-Type''
       \<and> \<not> headers_contains (headers r) ''Content-Length''"
proof -
  let ?rq = "post_request ''http://example.com/old'' Map.empty"
  let ?rs = "status_response 302 [''location'' \<mapsto> [''/new'']] Map.empty"
  have h1: "\<not> truthy (dict_get (meta ?rq) ''dont_redirect'' (PBool False))"
    and h2: "\<not> truthy (dict_get (meta ?rq) ''handle_httpstatus_all'' (PBool False))"
    and h4: "py_int_in (status ?rs) (dict_get (meta ?rq) ''handle_httpstatus_list'' (PList [])) = Inr False"
    by (simp_all add: post_request_def dict_get_def py_int_in_def)
  have h3: "py_int_in (status ?rs) (getattr_handle_httpstatus_list plain_spider (PList [])) = Inr False"
    by (simp add: plain_spider_def getattr_handle_httpstatus_list_def py_int_in_def)
  have h5: "status ?rs \<in> {301, 302, 303, 307, 308}"
    by (simp add: status_response_def)
  have h6: "headers_getitem (resp_headers ?rs) ''Location'' = Inr (Some ''/new'')"
    by (simp add: headers_getitem_def normkey_Location status_response_def)
  have t: "int_or_absent (meta ?rq) ''redirect_ttl''" "int_or_absent (meta ?rq) ''redirect_times''"
    "list_or_absent (meta ?rq) ''redirect_urls''" "list_or_absent (meta ?rq) ''redirect_reasons''"
    by (simp_all add: post_request_def int_or_absent_def list_or_absent_def)
  have b: "meta_int (meta ?rq) ''redirect_ttl'' (max_redirect_times default_redirect_mw) \<noteq> 0"
    "meta_int (meta ?rq) ''redirect_times'' 0 + 1 \<le> max_redirect_times default_redirect_mw"
    by (simp_all add: post_request_def meta_int_def default_redirect_mw_def)
  have nh: "\<not> (status ?rs \<in> {301, 307, 308} \<or> req_method ?rq = ''HEAD'')"
    by (simp add: status_response_def post_request_def)
  from http_redirect_policy[OF h1 h2 h3 h4 h5 h6 t b, of example_url_lib empty_env]
  obtain r where res: "snd (snd (RedirectMiddleware_process_response example_url_lib
                          default_redirect_mw ?rq ?rs plain_spider empty_env)) = Inr (Req r)"
    and u: "url r = urljoin example_url_lib (url ?rq) (safe_url_string example_url_lib ''/new'')"
    and g: "\<not> (status ?rs \<in> {301, 307, 308} \<or> req_method ?rq = ''HEAD'') \<longrightarrow>
                 req_method r = ''GET'' \<and> body r = []
                 \<and> \<not> headers_contains (headers r) ''Content-Type''
                 \<and> \<not> headers_contains (headers r) ''Content-Length''
                 \<and> (\<forall>k. k \<noteq> normkey ''Content-Type'' \<and> k \<noteq> normkey ''Content-Length''
                        \<longrightarrow> headers r k = headers ?rq k)"
    by blast
  from u have u': "url r = ''http://example.com/new''"
    by (simp add: example_url_lib_def)
  from g nh have "req_method r = ''GET'' \<and> body r = []
                 \<and> \<not> headers_contains (headers r) ''Content-Type''
                 \<and> \<not> headers_contains (headers r) ''Content-Length''"
    by blast
  with res u' show ?thesis by blast
qed

section \<open>Isolation of the cookie jars\<close>

lemma normkey_Cookie: "normkey ''Cookie'' = ''cookie''"
  by code_simp

lemma normkey_Set_Cookie: "normkey ''Set-Cookie'' = ''set-cookie''"
  by code_simp

lemma jars_getitem_other:
  "k \<noteq> a \<Longrightarrow> snd (jars_getitem ops js a) k = js k"
  by (simp add: jars_getitem_def split: option.splits)

lemma jars_after_request_other:
  assumes "cookiejar_key request = Inr a" and "k \<noteq> a"
  shows "jars (mw_after_request ops mw request e) k = jars mw k"
  using assms
  by (simp add: mw_after_request_def CookiesMiddleware_process_request_def cookiejar_key_def
        split_beta Let_def jars_getitem_other split: sum.split)

lemma jars_after_response_other:
  assumes "cookiejar_key request = Inr a" and "k \<noteq> a"
  shows "jars (mw_after_response ops mw request response e) k = jars mw k"
  using assms
  by (simp add: mw_after_response_def CookiesMiddleware_process_response_def cookiejar_key_def
        split_beta Let_def jars_getitem_other)

lemma jars_getitem_fst:
  "fst (jars_getitem ops js b) = (case js b of None \<Rightarrow> CookieJar ops | Some jar \<Rightarrow> jar)"
  by (simp add: jars_getitem_def split: option.splits)

lemma request_sent_cong:
  assumes "cookiejar_key request = Inr b" and "jars mw1 b = jars mw2 b"
  shows "request_sent ops mw1 request e1 = request_sent ops mw2 request e2"
  using assms
  by (simp add: request_sent_def CookiesMiddleware_process_request_def cookiejar_key_def
        split_beta Let_def jars_getitem_fst split: sum.split)

text \<open>
  C8. Cookie jars are isolated per key. Let a request \<open>rqA\<close> select the jar under
  the dictionary key \<open>a\<close> and a request \<open>rqB\<close> the jar under a different key
  \<open>b\<close> (\<open>None\<close>, the default jar, when its meta has no \<open>cookiejar\<close>). Then
  processing \<open>rqA\<close>, or a response to it, changes the jar under no key other than
  \<open>a\<close>, and the request that \<open>process_request\<close> makes of \<open>rqB\<close>, its
  \<open>Cookie\<close> header included, is the same after as before: nothing absorbed under
  \<open>a\<close> reaches it.
\<close>

theorem cookie_jar_isolation:
  assumes "cookiejar_key rqA = Inr a" and "cookiejar_key rqB = Inr b" and "a \<noteq> b"
  shows "(\<forall>k. k \<noteq> a \<longrightarrow> jars (mw_after_request ops mw rqA e) k = jars mw k
                    \<and> jars (mw_after_response ops mw rqA rsA e) k = jars mw k)
       \<and> request_sent ops (mw_after_response ops mw rqA rsA e) rqB e' = request_sent ops mw rqB e'
       \<and> request_sent ops (mw_after_request ops mw rqA e) rqB e' = request_sent ops mw rqB e'"
proof -
  have 1: "\<forall>k. k \<noteq> a \<longrightarrow> jars (mw_after_request ops mw rqA e) k = jars mw k
                    \<and> jars (mw_after_response ops mw rqA rsA e) k = jars mw k"
    using jars_after_request_other[OF assms(1)] jars_after_response_other[OF assms(1)] by blast
  from assms(3) have ba: "b \<noteq> a" by simp
  have 2: "request_sent ops (mw_after_response ops mw rqA rsA e) rqB e' = request_sent ops mw rqB e'"
    by (rule request_sent_cong[OF assms(2)]) (rule jars_after_response_other[OF assms(1) ba])
  have 3: "request_sent ops (mw_after_request ops mw rqA e) rqB e' = request_sent ops mw rqB e'"
    by (rule request_sent_cong[OF assms(2)]) (rule jars_after_request_other[OF assms(1) ba])
  from 1 2 3 show ?thesis by blast
qed

theorem cookie_jar_isolation_witness:
  "jars (mw_after_response list_jar_ops fresh_cookies_mw
           (get_request ''http://example.com/a'' [''cookiejar'' \<mapsto> PStr ''A''])
           (status_response 200 [''set-cookie'' \<mapsto> [''sid=abc'']] Map.empty) empty_env)
        (PStr ''A'') = Some [''sid=abc'']
   \<and> headers (request_sent list_jar_ops
           (mw_after_response list_jar_ops fresh_cookies_mw
              (get_request ''http://example.com/a'' [''cookiejar'' \<mapsto> PStr ''A''])
              (status_response 200 [''set-cookie'' \<mapsto> [''sid=abc'']] Map.empty) empty_env)
           (get_request ''http://example.com/a'' [''cookiejar'' \<mapsto> PStr ''A'']) empty_env)
        ''cookie'' = Some [''sid=abc'']
   \<and> headers (request_sent list_jar_ops
           (mw_after_response list_jar_ops fresh_cookies_mw
              (get_request ''http://example.com/a'' [''cookiejar'' \<mapsto> PStr ''A''])
              (status_response 200 [''set-cookie'' \<mapsto> [''sid=abc'']] Map.empty) empty_env)
           (get_request ''http://example.com/b'' Map.empty) empty_env)
        ''cookie'' = None"
proof -
  let ?rqA = "get_request ''http://example.com/a'' [''cookiejar'' \<mapsto> PStr ''A'']"
  let ?rsA = "status_response 200 [''set-cookie'' \<mapsto> [''sid=abc'']] Map.empty"
  let ?rqB = "get_request ''http://example.com/b'' Map.empty"
  let ?mw1 = "mw_after_response list_jar_ops fresh_cookies_mw ?rqA ?rsA empty_env"
  have ka: "cookiejar_key ?rqA = Inr (PStr ''A'')" and kb: "cookiejar_key ?rqB = Inr PNone"
    by (simp_all add: cookiejar_key_def get_request_def dict_get_def)
  have ne: "PStr ''A'' \<noteq> PNone"
    by simp
  have mw1: "?mw1 = \<lparr>jars = [PStr ''A'' \<mapsto> [''sid=abc'']], debug = False\<rparr>"
    by (simp add: mw_after_response_def CookiesMiddleware_process_response_def get_request_def
          dict_get_def jars_getitem_def list_jar_ops_def Let_def fresh_cookies_mw_def status_response_def
          headers_getlist_def normkey_Set_Cookie)
  have a: "jars ?mw1 (PStr ''A'') = Some [''sid=abc'']"
    by (simp add: mw1)
  have b: "headers (request_sent list_jar_ops ?mw1 ?rqA empty_env) ''cookie'' = Some [''sid=abc'']"
    unfolding mw1
    by (simp add: request_sent_def CookiesMiddleware_process_request_def get_request_def
          dict_get_def jars_getitem_def list_jar_ops_def Let_def get_request_cookies_def
          headers_getlist_def headers_pop_def normkey_Set_Cookie normkey_Cookie)
  have eq: "request_sent list_jar_ops ?mw1 ?rqB empty_env
          = request_sent list_jar_ops fresh_cookies_mw ?rqB empty_env"
    using cookie_jar_isolation[OF ka kb ne, where ops = list_jar_ops and mw = fresh_cookies_mw
            and e = empty_env and rsA = ?rsA and e' = empty_env]
    by (rule conjunct1[OF conjunct2])
  have n: "headers (request_sent list_jar_ops fresh_cookies_mw ?rqB empty_env) ''cookie'' = None"
    by (simp add: request_sent_def CookiesMiddleware_process_request_def get_request_def
          dict_get_def jars_getitem_def list_jar_ops_def Let_def get_request_cookies_def
          headers_getlist_def headers_pop_def normkey_Set_Cookie normkey_Cookie
          fresh_cookies_mw_def)
  have c: "headers (request_sent list_jar_ops ?mw1 ?rqB empty_env) ''cookie'' = None"
    by (simp only: eq n)
  from a b c show ?thesis by blast
qed

end
